theory Spec2Isabelle
  imports Main "HOL-Library.Word"
begin

section \<open>Values shared by the packages\<close>

text \<open>
  Go's \<open>[]byte\<close> is modelled as \<open>byte list option\<close>: \<open>None\<close> is the nil slice, which the
  database driver sends as SQL NULL (the reason \<open>nullBytes\<close> exists in storage.go), and
  \<open>Some bs\<close> a non-nil slice, possibly of length 0. Go's \<open>int\<close> is modelled as \<open>int\<close>;
  the places where the code narrows it (JSON decoding into a 64-bit \<open>int\<close>, the
  \<open>int\<close> columns of the schema, which are 32 bits wide) carry explicit range checks.
  Block numbers are \<open>int64\<close> and take part in arithmetic, so they are 64-bit words
  read as two's complement.
\<close>

type_synonym byte = "8 word"
type_synonym go_bytes = "byte list option"
type_synonym int64 = "64 word"

definition bytes_of :: "go_bytes \<Rightarrow> byte list" where
  "bytes_of b = (case b of None \<Rightarrow> [] | Some bs \<Rightarrow> bs)"

definition len :: "go_bytes \<Rightarrow> nat" where
  "len b = length (bytes_of b)"

text \<open>\<open>append(buf, part...)\<close>: appending no element to the nil slice leaves it nil.\<close>

definition go_append :: "go_bytes \<Rightarrow> byte list \<Rightarrow> go_bytes" where
  "go_append buf part =
     (case buf of
        None \<Rightarrow> (if part = [] then None else Some part)
      | Some bs \<Rightarrow> Some (bs @ part))"

definition in_int64 :: "int \<Rightarrow> bool" where
  "in_int64 n = (- (2 ^ 63) \<le> n \<and> n < 2 ^ 63)"

definition in_int4 :: "int \<Rightarrow> bool" where
  "in_int4 n = (- (2 ^ 31) \<le> n \<and> n < 2 ^ 31)"

definition opt_in_int4 :: "int option \<Rightarrow> bool" where
  "opt_in_int4 n = (case n of None \<Rightarrow> True | Some k \<Rightarrow> in_int4 k)"

text \<open>
  \<open>strings.TrimSpace\<close>, \<open>strings.ToLower\<close> and \<open>strings.EqualFold\<close>, on ASCII: the white space
  characters are tab, line feed, vertical tab, form feed, carriage return and space, and
  folding maps \<open>A..Z\<close> to \<open>a..z\<close> (it sets the bit of value 32). (Go also knows the white space and the case pairs
  beyond ASCII; none of them folds to a hexadecimal digit.)
\<close>

definition isSpace :: "char \<Rightarrow> bool" where
  "isSpace c = (let n = (of_char c :: nat) in n = 32 \<or> (9 \<le> n \<and> n \<le> 13))"

definition TrimSpace :: "string \<Rightarrow> string" where
  "TrimSpace s = rev (dropWhile isSpace (rev (dropWhile isSpace s)))"

definition fold_char :: "char \<Rightarrow> char" where
  "fold_char c =
     (let n = (of_char c :: nat) in
      if 65 \<le> n \<and> n \<le> 90
      then (case c of Char b0 b1 b2 b3 b4 b5 b6 b7 \<Rightarrow> Char b0 b1 b2 b3 b4 True b6 b7)
      else c)"

definition ToLower :: "string \<Rightarrow> string" where
  "ToLower s = map fold_char s"

definition EqualFold :: "string \<Rightarrow> string \<Rightarrow> bool" where
  "EqualFold s t = (ToLower s = ToLower t)"

subsection \<open>JSON values\<close>

text \<open>
  A JSON document after parsing. \<open>JInt n\<close> is a number literal without fraction and
  exponent, \<open>JFrac lit\<close> any other number literal. Object members keep their order and
  their duplicates.
\<close>

datatype json =
    JNull
  | JBool bool
  | JInt int
  | JFrac string
  | JString string
  | JArray "json list"
  | JObject "(string \<times> json) list"

text \<open>
  The functions of Go's standard library that the program calls and whose code is not
  part of the repository are parameters of the model: the JSON parser (text to value,
  \<open>None\<close> for a syntax error), \<open>base64.StdEncoding.DecodeString\<close>, the lower-case
  hexadecimal SHA-256 digest \<open>hex.EncodeToString(sha256.Sum256(buf))\<close>, the decimal
  printing and scanning of an \<open>int64\<close>, and the media type that \<open>mime.ParseMediaType\<close>
  returns.
\<close>

record stdlib =
  json_parse :: "string \<Rightarrow> json option"
  b64_decode :: "string \<Rightarrow> byte list option"
  sha256_hex :: "byte list \<Rightarrow> string"
  sprint_d :: "int64 \<Rightarrow> string"
  sscan_d :: "string \<Rightarrow> int64 option"
  parse_media_type :: "string \<Rightarrow> string option"

section \<open>Package storage\<close>

subsection \<open>Payload structs (storage.go, lines 104-150)\<close>

record RegisterV1 =
  rName :: string
  rAuthor :: string
  rMime :: string
  rWidth :: int
  rHeight :: int
  rData :: go_bytes
  rAnimated :: bool
  rLoop :: "int option"
  rFallbackMime :: string
  rFallbackData :: go_bytes

record ChunkPayload =
  cID :: string
  cAuthor :: string
  cName :: string
  cVersion :: int
  cMime :: string
  cWidth :: int
  cHeight :: int
  cAnimated :: bool
  cLoop :: "int option"
  cChecksum :: string
  cKind :: string
  cSeq :: int
  cTotal :: int
  cData :: go_bytes

record AssembledSet =
  aUploadID :: string
  aKind :: string
  aName :: string
  aAuthor :: string
  aVersion :: int
  aMime :: string
  aWidth :: int
  aHeight :: int
  aAnimated :: bool
  aLoop :: "int option"
  aChecksum :: string
  aData :: go_bytes

subsection \<open>Tables (EnsureSchema, storage.go lines 26-102)\<close>

text \<open>
  One record per row; a nullable column is an \<open>option\<close>. The columns \<open>created_at\<close> and
  \<open>updated_at\<close> are left out: no statement of the program reads them.
  \<open>hivemoji_assets\<close> has the primary key \<open>(author, name)\<close>, \<open>hivemoji_chunk_sets\<close> the key
  \<open>(upload_id, kind)\<close>; both are maps from the key to the other columns, and a
  statement that selects a key column \<open>WHERE\<close> it equals a parameter reads the
  parameter. \<open>hivemoji_chunks\<close>, key
  \<open>(upload_id, kind, seq)\<close>, is a list of rows, because the program counts and orders
  them. \<open>sync_state\<close> maps its key to the value text.
\<close>

record asset_row =
  as_version :: int
  as_upload_id :: "string option"
  as_mime :: string
  as_width :: "int option"
  as_height :: "int option"
  as_data :: "byte list"
  as_animated :: bool
  as_loop :: "int option"
  as_fallback_mime :: "string option"
  as_fallback_data :: "byte list option"
  as_checksum :: "string option"

record chunk_row =
  ch_upload_id :: string
  ch_kind :: string
  ch_seq :: int
  ch_total :: int
  ch_data :: "byte list"

record chunk_set_row =
  cs_name :: string
  cs_author :: string
  cs_version :: int
  cs_mime :: string
  cs_width :: int
  cs_height :: int
  cs_animated :: bool
  cs_loop :: "int option"
  cs_checksum :: string
  cs_total :: int
  cs_completed :: bool
  cs_data :: "byte list option"

record store =
  assets :: "(string \<times> string) \<rightharpoonup> asset_row"
  chunks :: "chunk_row list"
  chunk_sets :: "(string \<times> string) \<rightharpoonup> chunk_set_row"
  sync_state :: "string \<rightharpoonup> string"

definition empty_store :: store where
  "empty_store = \<lparr>assets = Map.empty, chunks = [], chunk_sets = Map.empty, sync_state = Map.empty\<rparr>"

subsection \<open>Errors\<close>

text \<open>
  Every error the code builds is a constructor; \<open>fmt.Errorf("...: %w", err)\<close> wraps the
  inner error. A statement the database refuses for the values it is given (a NULL in a
  NOT NULL column, a number outside a 32-bit \<open>int\<close> column, a query with no row) is a
  \<open>DB\<close> error; failures of the connection, and texts the database would refuse
  (a NUL byte, invalid UTF-8), are outside the model.
\<close>

datatype db_error = NotNullViolation | Int4OutOfRange | NoRows

datatype error =
    DB db_error
  | AuthorRequiredForDelete
  | UpsertChunkSet error
  | InsertChunk error
  | AssembleChunks error
  | NoChunksToAssemble
  | ChunkCountMismatch string string int int
  | ChecksumMismatch string string
  | MainSetRequired
  | ScanLastBlock
  | PayloadEnvelope
  | UnsupportedVersion int
  | DecodeV1
  | LoopError error
  | LoopMustBeBoolOrInt
  | DecodeV1Data
  | DecodeFallback
  | UnknownV1Op string
  | DecodeV2
  | UnsupportedV2Op string
  | TotalMustBePositive
  | DecodeV2Chunk
  | UnknownChunkKind string
  | MissingJSONField
  | BlockError int64 error

subsection \<open>Helpers (storage.go, lines 577-603)\<close>

definition nullIfEmpty :: "string \<Rightarrow> string option" where
  "nullIfEmpty v = (if TrimSpace v = [] then None else Some v)"

definition nullBytes :: "go_bytes \<Rightarrow> go_bytes" where
  "nullBytes b = (if len b = 0 then None else b)"

definition fallbackMime :: "AssembledSet option \<Rightarrow> string option" where
  "fallbackMime fb = (case fb of None \<Rightarrow> None | Some f \<Rightarrow> Some (aMime f))"

definition fallbackData :: "AssembledSet option \<Rightarrow> go_bytes" where
  "fallbackData fb = (case fb of None \<Rightarrow> None | Some f \<Rightarrow> aData f)"

subsection \<open>NormalizeEmojiMime (mime.go)\<close>

definition allowedEmojiMimes :: "string list" where
  "allowedEmojiMimes = [''image/gif'', ''image/png'', ''image/webp'']"

definition NormalizeEmojiMime :: "stdlib \<Rightarrow> string \<Rightarrow> string \<times> bool" where
  "NormalizeEmojiMime env raw =
     (let raw = TrimSpace raw in
      if raw = [] then ([], False)
      else
        case parse_media_type env raw of
          None \<Rightarrow> ([], False)
        | Some mediaType \<Rightarrow>
            (let mediaType = ToLower mediaType in
             if \<not> List.member allowedEmojiMimes mediaType then ([], False)
             else (mediaType, True)))"

subsection \<open>UpsertV1 and DeleteEmoji (storage.go, lines 153-181)\<close>

text \<open>
  The INSERT gives the thirteen columns, with \<open>version = 1\<close>, \<open>upload_id = NULL\<close> and
  \<open>checksum = NULL\<close>. On a conflict on \<open>(author, name)\<close> the statement updates the
  columns of its SET list: \<open>version, author, upload_id, mime, width, height, data,
  animated, loop, fallback_mime, fallback_data\<close> (\<open>author\<close> is a key column and keeps
  its value). \<open>checksum\<close> is not in that list, so the existing row keeps its value.
\<close>

definition UpsertV1 :: "store \<Rightarrow> RegisterV1 \<Rightarrow> error + store" where
  "UpsertV1 s p =
     (case rData p of
        None \<Rightarrow> Inl (DB NotNullViolation)
      | Some d \<Rightarrow>
          if \<not> (in_int4 (rWidth p) \<and> in_int4 (rHeight p) \<and> opt_in_int4 (rLoop p))
          then Inl (DB Int4OutOfRange)
          else
            let k = (rAuthor p, rName p);
                row = (case assets s k of
                   None \<Rightarrow>
                     \<lparr>as_version = 1, as_upload_id = None, as_mime = rMime p,
                      as_width = Some (rWidth p), as_height = Some (rHeight p),
                      as_data = d, as_animated = rAnimated p, as_loop = rLoop p,
                      as_fallback_mime = nullIfEmpty (rFallbackMime p),
                      as_fallback_data = nullBytes (rFallbackData p),
                      as_checksum = None\<rparr>
                 | Some old \<Rightarrow>
                     old\<lparr>as_version := 1, as_upload_id := None, as_mime := rMime p,
                        as_width := Some (rWidth p), as_height := Some (rHeight p),
                        as_data := d, as_animated := rAnimated p, as_loop := rLoop p,
                        as_fallback_mime := nullIfEmpty (rFallbackMime p),
                        as_fallback_data := nullBytes (rFallbackData p)\<rparr>)
            in Inr (s\<lparr>assets := (assets s)(k \<mapsto> row)\<rparr>))"

definition DeleteEmoji :: "store \<Rightarrow> string \<Rightarrow> string \<Rightarrow> error + store" where
  "DeleteEmoji s author name =
     (if TrimSpace author = [] then Inl AuthorRequiredForDelete
      else Inr (s\<lparr>assets := (assets s)((author, name) := None)\<rparr>))"

subsection \<open>SaveChunk and assembleChunks (storage.go, lines 184-310)\<close>

definition same_set :: "string \<Rightarrow> string \<Rightarrow> chunk_row \<Rightarrow> bool" where
  "same_set uploadID kind r = (ch_upload_id r = uploadID \<and> ch_kind r = kind)"

definition same_chunk :: "string \<Rightarrow> string \<Rightarrow> int \<Rightarrow> chunk_row \<Rightarrow> bool" where
  "same_chunk uploadID kind seq r = (same_set uploadID kind r \<and> ch_seq r = seq)"

text \<open>
  The first statement of SaveChunk: insert the set's row with \<open>completed = false\<close> and no
  data, or on a conflict overwrite the ten columns of the SET list. \<open>completed\<close> and
  \<open>data\<close> are not in the list.
\<close>

definition upsert_chunk_set :: "store \<Rightarrow> ChunkPayload \<Rightarrow> store" where
  "upsert_chunk_set s c =
     (let k = (cID c, cKind c);
          row = (case chunk_sets s k of
             None \<Rightarrow>
               \<lparr>cs_name = cName c,
                cs_author = cAuthor c, cs_version = cVersion c, cs_mime = cMime c,
                cs_width = cWidth c, cs_height = cHeight c, cs_animated = cAnimated c,
                cs_loop = cLoop c, cs_checksum = cChecksum c, cs_total = cTotal c,
                cs_completed = False, cs_data = None\<rparr>
           | Some old \<Rightarrow>
               old\<lparr>cs_name := cName c, cs_author := cAuthor c, cs_version := cVersion c,
                  cs_mime := cMime c, cs_width := cWidth c, cs_height := cHeight c,
                  cs_animated := cAnimated c, cs_loop := cLoop c,
                  cs_checksum := cChecksum c, cs_total := cTotal c\<rparr>)
      in s\<lparr>chunk_sets := (chunk_sets s)(k \<mapsto> row)\<rparr>)"

text \<open>The second statement: \<open>INSERT ... ON CONFLICT (upload_id, kind, seq) DO NOTHING\<close>.\<close>

definition insert_chunk :: "store \<Rightarrow> ChunkPayload \<Rightarrow> byte list \<Rightarrow> store" where
  "insert_chunk s c d =
     (if list_ex (same_chunk (cID c) (cKind c) (cSeq c)) (chunks s) then s
      else s\<lparr>chunks := chunks s @
             [\<lparr>ch_upload_id = cID c, ch_kind = cKind c, ch_seq = cSeq c,
               ch_total = cTotal c, ch_data = d\<rparr>]\<rparr>)"

definition count_chunks :: "store \<Rightarrow> string \<Rightarrow> string \<Rightarrow> int" where
  "count_chunks s uploadID kind = int (length (filter (same_set uploadID kind) (chunks s)))"

text \<open>\<open>SELECT seq, data ... ORDER BY seq\<close>, of which the loop keeps the data.\<close>

definition parts_of :: "store \<Rightarrow> string \<Rightarrow> string \<Rightarrow> byte list list" where
  "parts_of s uploadID kind =
     map ch_data (sort_key ch_seq (filter (same_set uploadID kind) (chunks s)))"

definition concat_parts :: "byte list list \<Rightarrow> go_bytes" where
  "concat_parts parts = foldl go_append None parts"

definition assembleChunks ::
  "stdlib \<Rightarrow> store \<Rightarrow> string \<Rightarrow> string \<Rightarrow> error + (store \<times> AssembledSet)" where
  "assembleChunks env s uploadID kind =
     (let parts = parts_of s uploadID kind in
      if length parts = 0 then Inl NoChunksToAssemble
      else
        case chunk_sets s (uploadID, kind) of
          None \<Rightarrow> Inl (DB NoRows)
        | Some r \<Rightarrow>
            if int (length parts) \<noteq> cs_total r
            then Inl (ChunkCountMismatch uploadID kind (int (length parts)) (cs_total r))
            else
              let buf = concat_parts parts;
                  aset = \<lparr>aUploadID = uploadID, aKind = kind, aName = cs_name r,
                         aAuthor = cs_author r, aVersion = cs_version r, aMime = cs_mime r,
                         aWidth = cs_width r, aHeight = cs_height r,
                         aAnimated = cs_animated r, aLoop = cs_loop r,
                         aChecksum = cs_checksum r, aData = buf\<rparr>
              in
                if aChecksum aset \<noteq> [] \<and>
                   \<not> EqualFold (aChecksum aset) (sha256_hex env (bytes_of buf))
                then Inl (ChecksumMismatch uploadID kind)
                else
                  Inr (s\<lparr>chunk_sets := (chunk_sets s)((uploadID, kind) \<mapsto>
                           r\<lparr>cs_data := buf, cs_completed := True\<rparr>)\<rparr>, aset))"

text \<open>
  SaveChunk runs in one transaction: every error return rolls back (the deferred
  \<open>tx.Rollback\<close>), so an error carries no store and the caller keeps the one it had.
\<close>

definition SaveChunk ::
  "stdlib \<Rightarrow> store \<Rightarrow> ChunkPayload \<Rightarrow> error + (store \<times> AssembledSet option)" where
  "SaveChunk env s c =
     (if \<not> (in_int4 (cVersion c) \<and> in_int4 (cWidth c) \<and> in_int4 (cHeight c) \<and>
             opt_in_int4 (cLoop c) \<and> in_int4 (cTotal c))
      then Inl (UpsertChunkSet (DB Int4OutOfRange))
      else
        let s1 = upsert_chunk_set s c in
        if \<not> in_int4 (cSeq c) then Inl (InsertChunk (DB Int4OutOfRange))
        else
          case cData c of
            None \<Rightarrow> Inl (InsertChunk (DB NotNullViolation))
          | Some d \<Rightarrow>
              let s2 = insert_chunk s1 c d;
                  count = count_chunks s2 (cID c) (cKind c)
              in
                if count < cTotal c then Inr (s2, None)
                else
                  case assembleChunks env s2 (cID c) (cKind c) of
                    Inl e \<Rightarrow> Inl (AssembleChunks e)
                  | Inr (s3, aset) \<Rightarrow> Inr (s3, Some aset))"

subsection \<open>UpsertFromChunks, GetChunkSet, SetLastBlock, LastBlock (storage.go, lines 313-384)\<close>

definition UpsertFromChunks ::
  "store \<Rightarrow> AssembledSet option \<Rightarrow> AssembledSet option \<Rightarrow> error + store" where
  "UpsertFromChunks s main fallback =
     (case main of
        None \<Rightarrow> Inl MainSetRequired
      | Some m \<Rightarrow>
          if \<not> (in_int4 (aVersion m) \<and> in_int4 (aWidth m) \<and> in_int4 (aHeight m) \<and>
                 opt_in_int4 (aLoop m))
          then Inl (DB Int4OutOfRange)
          else
            case aData m of
              None \<Rightarrow> Inl (DB NotNullViolation)
            | Some d \<Rightarrow>
                Inr (s\<lparr>assets := (assets s)((aAuthor m, aName m) \<mapsto>
                   \<lparr>as_version = aVersion m,
                    as_upload_id = Some (aUploadID m), as_mime = aMime m,
                    as_width = Some (aWidth m), as_height = Some (aHeight m),
                    as_data = d, as_animated = aAnimated m, as_loop = aLoop m,
                    as_fallback_mime = fallbackMime fallback,
                    as_fallback_data = fallbackData fallback,
                    as_checksum = Some (aChecksum m)\<rparr>)\<rparr>))"

definition GetChunkSet :: "store \<Rightarrow> string \<Rightarrow> string \<Rightarrow> AssembledSet option" where
  "GetChunkSet s uploadID kind =
     (case chunk_sets s (uploadID, kind) of
        None \<Rightarrow> None
      | Some r \<Rightarrow>
          if cs_completed r
          then Some \<lparr>aUploadID = uploadID, aKind = kind, aName = cs_name r,
                     aAuthor = cs_author r, aVersion = cs_version r, aMime = cs_mime r,
                     aWidth = cs_width r, aHeight = cs_height r,
                     aAnimated = cs_animated r, aLoop = cs_loop r,
                     aChecksum = cs_checksum r, aData = cs_data r\<rparr>
          else None)"

definition SetLastBlock :: "stdlib \<Rightarrow> store \<Rightarrow> int64 \<Rightarrow> store" where
  "SetLastBlock env s number =
     s\<lparr>sync_state := (sync_state s)(''last_block'' \<mapsto> sprint_d env number)\<rparr>"

definition LastBlock :: "stdlib \<Rightarrow> store \<Rightarrow> error + int64" where
  "LastBlock env s =
     (case sync_state s ''last_block'' of
        None \<Rightarrow> Inr 0
      | Some v \<Rightarrow> (case sscan_d env v of None \<Rightarrow> Inl ScanLastBlock | Some n \<Rightarrow> Inr n))"

section \<open>Package hive (types.go)\<close>

text \<open>
  A \<open>json.RawMessage\<close> or \<open>[]byte\<close> that the program hands to \<open>json.Unmarshal\<close> is
  either a text still to be parsed (\<open>RawText\<close>) or the bytes of a value that the decoder
  cut out of a document it had already parsed (\<open>RawValue\<close>), which parse to that value.
\<close>

datatype raw = RawText string | RawValue json

definition unmarshal :: "stdlib \<Rightarrow> raw \<Rightarrow> json option" where
  "unmarshal env r = (case r of RawText s \<Rightarrow> json_parse env s | RawValue v \<Rightarrow> Some v)"

text \<open>
  How \<open>encoding/json\<close> fills a struct from an object: the members are visited in
  order; a member whose key equals a field's tag, ignoring case, is decoded into that
  field; \<open>null\<close> leaves a field as it is (and sets a pointer or a slice to nil); a
  value of the wrong JSON type makes \<open>Unmarshal\<close> return an error. \<open>members obj tag\<close>
  are the values decoded into the field \<open>tag\<close>, in order, and each \<open>dec_\<close> function
  runs through them from the field's zero value.
\<close>

definition members :: "(string \<times> json) list \<Rightarrow> string \<Rightarrow> json list" where
  "members obj tag = map snd (filter (\<lambda>kv. EqualFold (fst kv) tag) obj)"

fun dec_string :: "string \<Rightarrow> json list \<Rightarrow> string option" where
  "dec_string acc [] = Some acc"
| "dec_string acc (JNull # vs) = dec_string acc vs"
| "dec_string acc (JString s # vs) = dec_string s vs"
| "dec_string acc (v # vs) = None"

fun dec_bool :: "bool \<Rightarrow> json list \<Rightarrow> bool option" where
  "dec_bool acc [] = Some acc"
| "dec_bool acc (JNull # vs) = dec_bool acc vs"
| "dec_bool acc (JBool b # vs) = dec_bool b vs"
| "dec_bool acc (v # vs) = None"

fun dec_int :: "int \<Rightarrow> json list \<Rightarrow> int option" where
  "dec_int acc [] = Some acc"
| "dec_int acc (JNull # vs) = dec_int acc vs"
| "dec_int acc (JInt n # vs) = (if in_int64 n then dec_int n vs else None)"
| "dec_int acc (v # vs) = None"

fun dec_raw :: "json option \<Rightarrow> json list \<Rightarrow> json option" where
  "dec_raw acc [] = acc"
| "dec_raw acc (v # vs) = dec_raw (Some v) vs"

fun dec_elems :: "json list \<Rightarrow> string list option" where
  "dec_elems [] = Some []"
| "dec_elems (x # xs) =
     (case (dec_string [] [x], dec_elems xs) of
        (Some s, Some ss) \<Rightarrow> Some (s # ss)
      | _ \<Rightarrow> None)"

fun dec_strings :: "string list \<Rightarrow> json list \<Rightarrow> string list option" where
  "dec_strings acc [] = Some acc"
| "dec_strings acc (JNull # vs) = dec_strings [] vs"
| "dec_strings acc (JArray xs # vs) =
     (case dec_elems xs of None \<Rightarrow> None | Some ss \<Rightarrow> dec_strings ss vs)"
| "dec_strings acc (v # vs) = None"

record Operation =
  opType :: string
  opValue :: raw

record Transaction =
  Operations :: "Operation list"

record Block =
  Number :: int64
  Transactions :: "Transaction list"

record CustomJSONOp =
  coID :: string
  coJSON :: "json option"
  coRequiredAuths :: "string list"
  coRequiredPostingAuths :: "string list"

text \<open>\<open>json.Unmarshal(op.Value, &custom)\<close>; \<open>coJSON = None\<close> is the empty RawMessage.\<close>

definition decode_custom :: "json \<Rightarrow> CustomJSONOp option" where
  "decode_custom j =
     (case j of
        JNull \<Rightarrow> Some \<lparr>coID = [], coJSON = None, coRequiredAuths = [],
                        coRequiredPostingAuths = []\<rparr>
      | JObject obj \<Rightarrow>
          (case (dec_string [] (members obj ''id''),
                 dec_strings [] (members obj ''required_auths''),
                 dec_strings [] (members obj ''required_posting_auths'')) of
             (Some i, Some ra, Some rpa) \<Rightarrow>
               Some \<lparr>coID = i, coJSON = dec_raw None (members obj ''json''),
                     coRequiredAuths = ra, coRequiredPostingAuths = rpa\<rparr>
           | _ \<Rightarrow> None)
      | _ \<Rightarrow> None)"

definition ExtractPayload :: "CustomJSONOp \<Rightarrow> error + raw" where
  "ExtractPayload c =
     (case coJSON c of
        None \<Rightarrow> Inl MissingJSONField
      | Some v \<Rightarrow>
          (case dec_string [] [v] of
             Some asString \<Rightarrow> Inr (RawText asString)
           | None \<Rightarrow> Inr (RawValue v)))"

section \<open>Package processor (processor.go)\<close>

record envelope =
  eVersion :: int
  eOp :: string

definition decode_envelope :: "json \<Rightarrow> envelope option" where
  "decode_envelope j =
     (case j of
        JNull \<Rightarrow> Some \<lparr>eVersion = 0, eOp = []\<rparr>
      | JObject obj \<Rightarrow>
          (case (dec_int 0 (members obj ''version''), dec_string [] (members obj ''op'')) of
             (Some v, Some opn) \<Rightarrow> Some \<lparr>eVersion = v, eOp = opn\<rparr>
           | _ \<Rightarrow> None)
      | _ \<Rightarrow> None)"

record fallback_msg =
  fbMime :: string
  fbData :: string

fun dec_fallback :: "fallback_msg option \<Rightarrow> json list \<Rightarrow> fallback_msg option option" where
  "dec_fallback acc [] = Some acc"
| "dec_fallback acc (JNull # vs) = dec_fallback None vs"
| "dec_fallback acc (JObject obj # vs) =
     (let base = (case acc of None \<Rightarrow> \<lparr>fbMime = [], fbData = []\<rparr> | Some f \<Rightarrow> f) in
      case (dec_string (fbMime base) (members obj ''mime''),
            dec_string (fbData base) (members obj ''data'')) of
        (Some m, Some d) \<Rightarrow> dec_fallback (Some \<lparr>fbMime = m, fbData = d\<rparr>) vs
      | _ \<Rightarrow> None)"
| "dec_fallback acc (v # vs) = None"

record v1_msg =
  m1Version :: int
  m1Op :: string
  m1Name :: string
  m1Mime :: string
  m1Width :: int
  m1Height :: int
  m1Data :: string
  m1Animated :: bool
  m1Loop :: "json option"
  m1Fallback :: "fallback_msg option"

definition decode_v1 :: "json \<Rightarrow> v1_msg option" where
  "decode_v1 j =
     (case j of
        JNull \<Rightarrow> Some \<lparr>m1Version = 0, m1Op = [], m1Name = [], m1Mime = [], m1Width = 0,
                        m1Height = 0, m1Data = [], m1Animated = False, m1Loop = None,
                        m1Fallback = None\<rparr>
      | JObject obj \<Rightarrow>
          (case (dec_int 0 (members obj ''version''), dec_string [] (members obj ''op''),
                 dec_string [] (members obj ''name''), dec_string [] (members obj ''mime''),
                 dec_int 0 (members obj ''width''), dec_int 0 (members obj ''height''),
                 dec_string [] (members obj ''data''),
                 dec_bool False (members obj ''animated''),
                 dec_fallback None (members obj ''fallback'')) of
             (Some v, Some opn, Some n, Some mi, Some w, Some h, Some d, Some an, Some fb) \<Rightarrow>
               Some \<lparr>m1Version = v, m1Op = opn, m1Name = n, m1Mime = mi, m1Width = w,
                     m1Height = h, m1Data = d, m1Animated = an,
                     m1Loop = dec_raw None (members obj ''loop''), m1Fallback = fb\<rparr>
           | _ \<Rightarrow> None)
      | _ \<Rightarrow> None)"

record v2_msg =
  m2Version :: int
  m2Op :: string
  m2ID :: string
  m2Name :: string
  m2Mime :: string
  m2Width :: int
  m2Height :: int
  m2Animated :: bool
  m2Loop :: "json option"
  m2Checksum :: string
  m2Kind :: string
  m2Seq :: int
  m2Total :: int
  m2Data :: string

definition decode_v2 :: "json \<Rightarrow> v2_msg option" where
  "decode_v2 j =
     (case j of
        JNull \<Rightarrow> Some \<lparr>m2Version = 0, m2Op = [], m2ID = [], m2Name = [], m2Mime = [],
                        m2Width = 0, m2Height = 0, m2Animated = False, m2Loop = None,
                        m2Checksum = [], m2Kind = [], m2Seq = 0, m2Total = 0, m2Data = []\<rparr>
      | JObject obj \<Rightarrow>
          (case (dec_int 0 (members obj ''version''), dec_string [] (members obj ''op''),
                 dec_string [] (members obj ''id''), dec_string [] (members obj ''name''),
                 dec_string [] (members obj ''mime''),
                 dec_int 0 (members obj ''width''), dec_int 0 (members obj ''height''),
                 dec_bool False (members obj ''animated''),
                 dec_string [] (members obj ''checksum''),
                 dec_string [] (members obj ''kind''),
                 dec_int 0 (members obj ''seq''), dec_int 0 (members obj ''total''),
                 dec_string [] (members obj ''data'')) of
             (Some v, Some opn, Some i, Some n, Some mi, Some w, Some h, Some an, Some ck,
              Some k, Some sq, Some tot, Some d) \<Rightarrow>
               Some \<lparr>m2Version = v, m2Op = opn, m2ID = i, m2Name = n, m2Mime = mi,
                     m2Width = w, m2Height = h, m2Animated = an,
                     m2Loop = dec_raw None (members obj ''loop''), m2Checksum = ck,
                     m2Kind = k, m2Seq = sq, m2Total = tot, m2Data = d\<rparr>
           | _ \<Rightarrow> None)
      | _ \<Rightarrow> None)"

subsection \<open>parseLoop (lines 328-350)\<close>

text \<open>
  The argument is the RawMessage of the \<open>loop\<close> member: \<open>None\<close> when the payload has no
  such member (\<open>len(raw) == 0\<close>), else the member's value. \<open>json.Unmarshal\<close> into a
  \<open>bool\<close> and into an \<open>int\<close> follow the rules of the field decoders above.
\<close>

definition parseLoop :: "json option \<Rightarrow> error + int option" where
  "parseLoop raw =
     (case raw of
        None \<Rightarrow> Inr None
      | Some v \<Rightarrow>
          if v = JNull then Inr None
          else
            case dec_bool False [v] of
              Some asBool \<Rightarrow> (if \<not> asBool then Inr None else Inr (Some 0))
            | None \<Rightarrow>
                (case dec_int 0 [v] of
                   Some asInt \<Rightarrow> Inr (Some asInt)
                 | None \<Rightarrow> Inl LoopMustBeBoolOrInt))"

subsection \<open>Handlers\<close>

text \<open>
  A handler returns the store it leaves behind and the error it returns, if any. The
  store operations are atomic, so a failed one leaves the store as it was; a handler that
  fails after a committed SaveChunk leaves the chunk saved. Log lines are not modelled.
\<close>

type_synonym outcome = "store \<times> error option"

definition run :: "store \<Rightarrow> error + store \<Rightarrow> outcome" where
  "run s r = (case r of Inl e \<Rightarrow> (s, Some e) | Inr s' \<Rightarrow> (s', None))"

definition handleCompletedSet :: "store \<Rightarrow> AssembledSet \<Rightarrow> outcome" where
  "handleCompletedSet s aset =
     (if aKind aset = ''main'' then
        (let fallback = GetChunkSet s (aUploadID aset) ''fallback''
         in run s (UpsertFromChunks s (Some aset) fallback))
      else if aKind aset = ''fallback'' then
        (case GetChunkSet s (aUploadID aset) ''main'' of
           None \<Rightarrow> (s, None)
         | Some mainSet \<Rightarrow> run s (UpsertFromChunks s (Some mainSet) (Some aset)))
      else (s, Some (UnknownChunkKind (aKind aset))))"

definition handleV1 :: "stdlib \<Rightarrow> store \<Rightarrow> raw \<Rightarrow> string \<Rightarrow> outcome" where
  "handleV1 env s payload author =
     (case Option.bind (unmarshal env payload) decode_v1 of
        None \<Rightarrow> (s, Some DecodeV1)
      | Some msg \<Rightarrow>
          if m1Op msg = ''register'' then
            (case parseLoop (m1Loop msg) of
               Inl e \<Rightarrow> (s, Some (LoopError e))
             | Inr loop \<Rightarrow>
                 (case b64_decode env (m1Data msg) of
                    None \<Rightarrow> (s, Some DecodeV1Data)
                  | Some rawData \<Rightarrow>
                      (case (case m1Fallback msg of
                               None \<Rightarrow> Some (None, [])
                             | Some f \<Rightarrow>
                                 (case b64_decode env (fbData f) of
                                    None \<Rightarrow> None
                                  | Some fb \<Rightarrow> Some (Some fb, fbMime f))) of
                         None \<Rightarrow> (s, Some DecodeFallback)
                       | Some (fData, fMime) \<Rightarrow>
                           run s (UpsertV1 s
                             \<lparr>rName = m1Name msg, rAuthor = author, rMime = m1Mime msg,
                              rWidth = m1Width msg, rHeight = m1Height msg,
                              rData = Some rawData, rAnimated = m1Animated msg,
                              rLoop = loop, rFallbackMime = fMime,
                              rFallbackData = fData\<rparr>))))
          else if m1Op msg = ''delete'' then run s (DeleteEmoji s author (m1Name msg))
          else (s, Some (UnknownV1Op (m1Op msg))))"

definition handleV2 :: "stdlib \<Rightarrow> store \<Rightarrow> raw \<Rightarrow> string \<Rightarrow> outcome" where
  "handleV2 env s payload author =
     (case Option.bind (unmarshal env payload) decode_v2 of
        None \<Rightarrow> (s, Some DecodeV2)
      | Some msg \<Rightarrow>
          if m2Op msg \<noteq> ''chunk'' \<and> m2Op msg \<noteq> ''register'' \<and> m2Op msg \<noteq> []
          then (s, Some (UnsupportedV2Op (m2Op msg)))
          else if m2Op msg = ''register'' \<and> m2Data msg = [] then (s, None)
          else if m2Total msg \<le> 0 then (s, Some TotalMustBePositive)
          else if m2Seq msg \<le> 0 then (s, None)
          else
            case parseLoop (m2Loop msg) of
              Inl e \<Rightarrow> (s, Some (LoopError e))
            | Inr loop \<Rightarrow>
                (case b64_decode env (m2Data msg) of
                   None \<Rightarrow> (s, Some DecodeV2Chunk)
                 | Some d \<Rightarrow>
                     (let kind = (if m2Kind msg = [] then ''main'' else m2Kind msg) in
                      case SaveChunk env s
                             \<lparr>cID = m2ID msg, cAuthor = author, cName = m2Name msg,
                              cVersion = m2Version msg, cMime = m2Mime msg,
                              cWidth = m2Width msg, cHeight = m2Height msg,
                              cAnimated = m2Animated msg, cLoop = loop,
                              cChecksum = m2Checksum msg, cKind = kind,
                              cSeq = m2Seq msg, cTotal = m2Total msg, cData = Some d\<rparr> of
                        Inl e \<Rightarrow> (s, Some e)
                      | Inr (s', None) \<Rightarrow> (s', None)
                      | Inr (s', Some assembled) \<Rightarrow> handleCompletedSet s' assembled)))"

definition handlePayload :: "stdlib \<Rightarrow> store \<Rightarrow> raw \<Rightarrow> string \<Rightarrow> outcome" where
  "handlePayload env s payload author =
     (case Option.bind (unmarshal env payload) decode_envelope of
        None \<Rightarrow> (s, Some PayloadEnvelope)
      | Some e \<Rightarrow>
          if eVersion e = 1 then handleV1 env s payload author
          else if eVersion e = 2 then handleV2 env s payload author
          else (s, Some (UnsupportedVersion (eVersion e))))"

definition firstNonEmpty :: "string list \<Rightarrow> string list \<Rightarrow> string" where
  "firstNonEmpty primary fallback =
     (if length primary > 0 \<and> hd primary \<noteq> [] then hd primary
      else if length fallback > 0 then hd fallback
      else [])"

subsection \<open>ProcessBlock (lines 38-72)\<close>

text \<open>
  The inner loop over the operations of one transaction, and the outer loop over the
  transactions. A \<open>continue\<close> goes on with the next operation; the \<open>return\<close> inside the
  loops leaves both with the error, wrapped with the block number.
\<close>

fun process_ops :: "stdlib \<Rightarrow> int64 \<Rightarrow> store \<Rightarrow> Operation list \<Rightarrow> outcome" where
  "process_ops env num s [] = (s, None)"
| "process_ops env num s (x # ops) =
     (if opType x \<noteq> ''custom_json'' then process_ops env num s ops
      else
        case Option.bind (unmarshal env (opValue x)) decode_custom of
          None \<Rightarrow> process_ops env num s ops
        | Some custom \<Rightarrow>
            if coID custom \<noteq> ''hivemoji'' then process_ops env num s ops
            else
              case ExtractPayload custom of
                Inl e \<Rightarrow> process_ops env num s ops
              | Inr payloadBytes \<Rightarrow>
                  (let author = firstNonEmpty (coRequiredPostingAuths custom)
                                  (coRequiredAuths custom)
                   in case handlePayload env s payloadBytes author of
                        (s', Some e) \<Rightarrow> (s', Some (BlockError num e))
                      | (s', None) \<Rightarrow> process_ops env num s' ops))"

fun process_txs :: "stdlib \<Rightarrow> int64 \<Rightarrow> store \<Rightarrow> Transaction list \<Rightarrow> outcome" where
  "process_txs env num s [] = (s, None)"
| "process_txs env num s (tx # txs) =
     (case process_ops env num s (Operations tx) of
        (s', Some e) \<Rightarrow> (s', Some e)
      | (s', None) \<Rightarrow> process_txs env num s' txs)"

definition ProcessBlock :: "stdlib \<Rightarrow> store \<Rightarrow> Block \<Rightarrow> outcome" where
  "ProcessBlock env s block =
     (case process_txs env (Number block) s (Transactions block) of
        (s', Some e) \<Rightarrow> (s', Some e)
      | (s', None) \<Rightarrow> (SetLastBlock env s' (Number block), None))"

section \<open>Command server: the start of ingestLoop (main.go, lines 123-134)\<close>

record Config =
  StartBlock :: int64

text \<open>
  \<open>last\<close> is 0 when LastBlock fails (the error is only logged). The comparisons are
  those of \<open>int64\<close>, and \<open>last + 1\<close> wraps around. The result is \<open>current\<close> on entry to
  the loop, the number of the first block the loop fetches.
\<close>

definition ingestLoop_start :: "stdlib \<Rightarrow> store \<Rightarrow> Config \<Rightarrow> int64" where
  "ingestLoop_start env s cfg =
     (let last = (case LastBlock env s of Inl e \<Rightarrow> 0 | Inr n \<Rightarrow> n);
          current = StartBlock cfg
      in if 0 <s last \<and> current <s last + 1 then last + 1 else current)"

section \<open>Notions used in the statements\<close>

text \<open>The values of a chunk fit the 32-bit columns they are written to.\<close>

definition chunk_ok :: "ChunkPayload \<Rightarrow> bool" where
  "chunk_ok c = (in_int4 (cVersion c) \<and> in_int4 (cWidth c) \<and> in_int4 (cHeight c) \<and>
                 opt_in_int4 (cLoop c) \<and> in_int4 (cTotal c) \<and> in_int4 (cSeq c))"

text \<open>A row of \<open>hivemoji_chunk_sets\<close> carries the metadata of a chunk.\<close>

definition meta_of :: "ChunkPayload \<Rightarrow> chunk_set_row \<Rightarrow> bool" where
  "meta_of c r =
     (cs_name r = cName c \<and> cs_author r = cAuthor c \<and> cs_version r = cVersion c \<and>
      cs_mime r = cMime c \<and> cs_width r = cWidth c \<and> cs_height r = cHeight c \<and>
      cs_animated r = cAnimated c \<and> cs_loop r = cLoop c \<and>
      cs_checksum r = cChecksum c \<and> cs_total r = cTotal c)"

text \<open>The store in which SaveChunk counts the chunks: after its two writes.\<close>

definition after_insert :: "store \<Rightarrow> ChunkPayload \<Rightarrow> store" where
  "after_insert s c = insert_chunk (upsert_chunk_set s c) c (bytes_of (cData c))"

text \<open>The larger of two \<open>int64\<close> values.\<close>

definition smax :: "int64 \<Rightarrow> int64 \<Rightarrow> int64" where
  "smax a b = (if a <s b then b else a)"

text \<open>The ChunkPayload that handleV2 builds from a decoded message.\<close>

definition chunk_of :: "v2_msg \<Rightarrow> string \<Rightarrow> int option \<Rightarrow> byte list \<Rightarrow> ChunkPayload" where
  "chunk_of msg author loop d =
     \<lparr>cID = m2ID msg, cAuthor = author, cName = m2Name msg,
      cVersion = m2Version msg, cMime = m2Mime msg,
      cWidth = m2Width msg, cHeight = m2Height msg,
      cAnimated = m2Animated msg, cLoop = loop,
      cChecksum = m2Checksum msg,
      cKind = (if m2Kind msg = [] then ''main'' else m2Kind msg),
      cSeq = m2Seq msg, cTotal = m2Total msg, cData = Some d\<rparr>"

section \<open>Example inputs\<close>

text \<open>
  A library whose functions are finite tables of true values of the real ones: the
  base64 texts of the bytes 1, 2 and 3, the SHA-256 digests of the byte strings \<open>[1]\<close>
  and \<open>[1, 2]\<close>, two block numbers in decimal, two media types. The only text its
  JSON parser is asked about, \<open>{\<close>, is not a JSON document. The examples use it on
  these inputs only.
\<close>

definition ex_env :: stdlib where
  "ex_env =
     \<lparr>json_parse = (\<lambda>s. None),
      b64_decode = (\<lambda>s. if s = [] then Some [] else if s = ''AQ=='' then Some [1]
                         else if s = ''Ag=='' then Some [2]
                         else if s = ''Aw=='' then Some [3] else None),
      sha256_hex = (\<lambda>bs.
         if bs = [1]
         then ''4bf5122f344554c53bde2ebb8cd2b7e3d1600ad631c385a5d7cce23c7785459a''
         else if bs = [1, 2]
         then ''a12871fee210fb8619291eaea194581cbd2531e4b23759d225f6806923f63222''
         else []),
      sprint_d = (\<lambda>n. if n = 7 then ''7'' else if n = 41 then ''41'' else []),
      sscan_d = (\<lambda>s. if s = ''7'' then Some 7 else if s = ''41'' then Some 41 else None),
      parse_media_type = (\<lambda>s. if s = ''text/html'' then Some ''text/html''
                               else if s = ''image/png'' then Some ''image/png'' else None)\<rparr>"

definition ex_c1 :: ChunkPayload where
  "ex_c1 = \<lparr>cID = ''U1'', cAuthor = ''alice'', cName = ''smile'', cVersion = 2,
     cMime = ''image/png'', cWidth = 1, cHeight = 1, cAnimated = False, cLoop = None,
     cChecksum = [], cKind = ''main'', cSeq = 1, cTotal = 1, cData = Some [1]\<rparr>"

definition ex_v2_asset :: asset_row where
  "ex_v2_asset = \<lparr>as_version = 2, as_upload_id = Some ''U1'', as_mime = ''image/png'',
     as_width = Some 1, as_height = Some 1, as_data = [1], as_animated = False,
     as_loop = None, as_fallback_mime = None, as_fallback_data = None,
     as_checksum =
       Some ''4bf5122f344554c53bde2ebb8cd2b7e3d1600ad631c385a5d7cce23c7785459a''\<rparr>"

definition ex_reg :: RegisterV1 where
  "ex_reg = \<lparr>rName = ''smile'', rAuthor = ''alice'', rMime = ''image/gif'', rWidth = 2,
     rHeight = 2, rData = Some [2], rAnimated = False, rLoop = None,
     rFallbackMime = [], rFallbackData = None\<rparr>"

definition ex_c2 :: "stdlib \<Rightarrow> ChunkPayload" where
  "ex_c2 env = ex_c1\<lparr>cSeq := 2, cTotal := 3, cChecksum := sha256_hex env [1] @ ''0''\<rparr>"

definition ex_fb :: ChunkPayload where
  "ex_fb = ex_c1\<lparr>cKind := ''fallback'', cData := Some [3]\<rparr>"

definition ex_c1_sum :: ChunkPayload where
  "ex_c1_sum = ex_c1\<lparr>cChecksum :=
     ''4BF5122F344554C53BDE2EBB8CD2B7E3D1600AD631C385A5D7CCE23C7785459A''\<rparr>"

definition ex_c1_bad :: ChunkPayload where
  "ex_c1_bad = ex_c1\<lparr>cChecksum := ''00''\<rparr>"

section \<open>Properties of the store\<close>

lemmas store_evals =
  SaveChunk_def empty_store_def in_int4_def opt_in_int4_def upsert_chunk_set_def
  insert_chunk_def count_chunks_def same_set_def same_chunk_def assembleChunks_def
  parts_of_def concat_parts_def go_append_def bytes_of_def Let_def

lemma EqualFold_length: "EqualFold s t \<Longrightarrow> length s = length t"
  unfolding EqualFold_def ToLower_def by (metis length_map)

lemma upsert_row:
  "\<exists>r. chunk_sets (upsert_chunk_set s c) (cID c, cKind c) = Some r \<and> meta_of c r"
  by (simp add: upsert_chunk_set_def meta_of_def Let_def split: option.splits)

lemma upsert_chunks: "chunks (upsert_chunk_set s c) = chunks s"
  by (simp add: upsert_chunk_set_def Let_def)

lemma upsert_assets: "assets (upsert_chunk_set s c) = assets s"
  by (simp add: upsert_chunk_set_def Let_def)

lemma upsert_idem:
  "chunk_sets s (cID c, cKind c) = Some r \<Longrightarrow> meta_of c r \<Longrightarrow> upsert_chunk_set s c = s"
  by (simp add: upsert_chunk_set_def meta_of_def Let_def map_upd_triv)

lemma insert_sets: "chunk_sets (insert_chunk s c d) = chunk_sets s"
  by (simp add: insert_chunk_def)

lemma insert_assets: "assets (insert_chunk s c d) = assets s"
  by (simp add: insert_chunk_def)

lemma insert_has:
  "list_ex (same_chunk (cID c) (cKind c) (cSeq c)) (chunks (insert_chunk s c d))"
  by (simp add: insert_chunk_def same_chunk_def same_set_def)

lemma insert_idem:
  "list_ex (same_chunk (cID c) (cKind c) (cSeq c)) (chunks s) \<Longrightarrow> insert_chunk s c d = s"
  by (simp add: insert_chunk_def)

lemma insert_nonempty:
  "filter (same_set (cID c) (cKind c)) (chunks (insert_chunk s c d)) \<noteq> []"
  by (auto simp: insert_chunk_def list_ex_iff same_chunk_def same_set_def filter_empty_conv)

lemma parts_nonempty: "parts_of (insert_chunk s c d) (cID c) (cKind c) \<noteq> []"
  using insert_nonempty [of c s d] unfolding parts_of_def
  by (metis length_map length_sort list.size(3) length_0_conv)

lemma length_parts: "int (length (parts_of s u k)) = count_chunks s u k"
  by (simp add: parts_of_def count_chunks_def)

lemma assemble_chunks: "assembleChunks env s u k = Inr (s', a) \<Longrightarrow> chunks s' = chunks s"
  unfolding assembleChunks_def Let_def
  by (simp split: option.splits if_splits) auto

lemma assemble_assets: "assembleChunks env s u k = Inr (s', a) \<Longrightarrow> assets s' = assets s"
  unfolding assembleChunks_def Let_def
  by (simp split: option.splits if_splits) auto

lemma assemble_row:
  "assembleChunks env s u k = Inr (s', a) \<Longrightarrow>
   \<exists>r. chunk_sets s (u, k) = Some r \<and>
       s' = s\<lparr>chunk_sets := (chunk_sets s)((u, k) \<mapsto>
               r\<lparr>cs_data := aData a, cs_completed := True\<rparr>)\<rparr>"
  unfolding assembleChunks_def Let_def
  by (simp split: option.splits if_splits) auto

lemma parts_of_cong: "chunks s' = chunks s \<Longrightarrow> parts_of s' u k = parts_of s u k"
  by (simp add: parts_of_def)

lemma assemble_set:
  assumes "assembleChunks env s u k = Inr (s', a)" and "chunk_sets s (u, k) = Some r"
  shows "a = \<lparr>aUploadID = u, aKind = k, aName = cs_name r,
               aAuthor = cs_author r, aVersion = cs_version r, aMime = cs_mime r,
               aWidth = cs_width r, aHeight = cs_height r,
               aAnimated = cs_animated r, aLoop = cs_loop r,
               aChecksum = cs_checksum r, aData = concat_parts (parts_of s u k)\<rparr>"
    and "length (parts_of s u k) \<noteq> 0"
    and "int (length (parts_of s u k)) = cs_total r"
    and "\<not> (cs_checksum r \<noteq> [] \<and>
            \<not> EqualFold (cs_checksum r)
                 (sha256_hex env (bytes_of (concat_parts (parts_of s u k)))))"
  using assms by (simp_all add: assembleChunks_def Let_def split: if_splits)

lemma assemble_idem:
  assumes "assembleChunks env s u k = Inr (s', a)"
  shows "assembleChunks env s' u k = Inr (s', a)"
proof -
  from assemble_row [OF assms] obtain r where r: "chunk_sets s (u, k) = Some r"
    and s': "s' = s\<lparr>chunk_sets := (chunk_sets s)((u, k) \<mapsto>
                     r\<lparr>cs_data := aData a, cs_completed := True\<rparr>)\<rparr>"
    by blast
  have p: "parts_of s' u k = parts_of s u k"
    by (rule parts_of_cong) (simp add: s')
  have r': "chunk_sets s' (u, k) = Some (r\<lparr>cs_data := aData a, cs_completed := True\<rparr>)"
    by (simp add: s')
  have same: "s'\<lparr>chunk_sets := (chunk_sets s')((u, k) \<mapsto>
        r\<lparr>cs_data := aData a, cs_completed := True\<rparr>
         \<lparr>cs_data := aData a, cs_completed := True\<rparr>)\<rparr> = s'"
    by (simp add: s')
  note f = assemble_set [OF assms r]
  have ad: "aData a = concat_parts (parts_of s u k)"
    by (simp add: f(1))
  show ?thesis
    unfolding assembleChunks_def Let_def p r' option.case
    using f(2,3,4) same by (simp add: f(1) ad)
qed

lemma SaveChunk_ok:
  "chunk_ok c \<Longrightarrow> cData c = Some d \<Longrightarrow>
   SaveChunk env s c =
     (if count_chunks (after_insert s c) (cID c) (cKind c) < cTotal c
      then Inr (after_insert s c, None)
      else case assembleChunks env (after_insert s c) (cID c) (cKind c) of
             Inl e \<Rightarrow> Inl (AssembleChunks e)
           | Inr (s3, aset) \<Rightarrow> Inr (s3, Some aset))"
  by (simp add: SaveChunk_def chunk_ok_def after_insert_def bytes_of_def Let_def)

lemma SaveChunk_Inr_ok:
  "SaveChunk env s c = Inr x \<Longrightarrow> chunk_ok c \<and> (\<exists>d. cData c = Some d)"
  unfolding SaveChunk_def chunk_ok_def Let_def
  by (simp split: if_splits option.splits)

lemma SaveChunk_Some:
  assumes "SaveChunk env s c = Inr (s1, Some a)"
  shows "assembleChunks env (after_insert s c) (cID c) (cKind c) = Inr (s1, a)"
proof -
  from SaveChunk_Inr_ok [OF assms] obtain d where ok: "chunk_ok c" and d: "cData c = Some d"
    by blast
  show ?thesis
    using assms unfolding SaveChunk_ok [OF ok d]
    by (cases "assembleChunks env (after_insert s c) (cID c) (cKind c)")
       (auto split: if_splits)
qed

lemma SaveChunk_None:
  assumes "SaveChunk env s c = Inr (s1, None)"
  shows "s1 = after_insert s c"
proof -
  from SaveChunk_Inr_ok [OF assms] obtain d where ok: "chunk_ok c" and d: "cData c = Some d"
    by blast
  show ?thesis
    using assms unfolding SaveChunk_ok [OF ok d]
    by (cases "assembleChunks env (after_insert s c) (cID c) (cKind c)")
       (auto split: if_splits)
qed

lemma after_insert_row:
  "\<exists>r. chunk_sets (after_insert s c) (cID c, cKind c) = Some r \<and> meta_of c r"
  using upsert_row [of s c] by (simp add: after_insert_def insert_sets)

lemma after_insert_assets: "assets (after_insert s c) = assets s"
  by (simp add: after_insert_def insert_assets upsert_assets)

lemma SaveChunk_assets: "SaveChunk env s c = Inr (s1, r) \<Longrightarrow> assets s1 = assets s"
proof (cases r)
  case None
  assume "SaveChunk env s c = Inr (s1, r)"
  with None show ?thesis
    using SaveChunk_None [of env s c s1] by (simp add: after_insert_assets)
next
  case (Some a)
  assume "SaveChunk env s c = Inr (s1, r)"
  with Some show ?thesis
    using assemble_assets [OF SaveChunk_Some [of env s c s1 a]]
    by (simp add: after_insert_assets)
qed

text \<open>
  A second SaveChunk with the same payload changes nothing in the store, and returns what
  the first returned.
\<close>

lemma SaveChunk_idem:
  assumes "SaveChunk env s c = Inr (s1, r)"
  shows "SaveChunk env s1 c = Inr (s1, r)"
proof -
  from SaveChunk_Inr_ok [OF assms] obtain d where ok: "chunk_ok c" and d: "cData c = Some d"
    by blast
  define sb where "sb = after_insert s c"
  have sbd: "sb = insert_chunk (upsert_chunk_set s c) c d"
    by (simp add: sb_def after_insert_def d bytes_of_def)
  note eq = SaveChunk_ok [OF ok d, of env s, folded sb_def]
  obtain row where row: "chunk_sets sb (cID c, cKind c) = Some row" "meta_of c row"
    using after_insert_row unfolding sb_def by blast
  have sb_up: "upsert_chunk_set sb c = sb"
    by (rule upsert_idem [OF row])
  have sb_in: "insert_chunk sb c d = sb"
    unfolding sbd by (rule insert_idem) (rule insert_has)
  have sb_after: "after_insert sb c = sb"
    by (simp add: after_insert_def sb_up d bytes_of_def sb_in)
  show ?thesis
  proof (cases r)
    case None
    with assms have s1: "s1 = sb" using SaveChunk_None sb_def by blast
    have lt: "count_chunks sb (cID c) (cKind c) < cTotal c"
      using assms None unfolding eq
      by (cases "assembleChunks env sb (cID c) (cKind c)") (auto split: if_splits)
    show ?thesis
      using lt by (simp add: SaveChunk_ok [OF ok d] s1 None sb_after)
  next
    case (Some a)
    with assms have a: "assembleChunks env sb (cID c) (cKind c) = Inr (s1, a)"
      using SaveChunk_Some sb_def by blast
    from assemble_row [OF a] obtain r0 where
      r0: "chunk_sets sb (cID c, cKind c) = Some r0"
      "s1 = sb\<lparr>chunk_sets := (chunk_sets sb)((cID c, cKind c) \<mapsto>
                 r0\<lparr>cs_data := aData a, cs_completed := True\<rparr>)\<rparr>"
      by blast
    have "r0 = row" using r0(1) row(1) by simp
    have m: "meta_of c (r0\<lparr>cs_data := aData a, cs_completed := True\<rparr>)"
      using row(2) \<open>r0 = row\<close> by (simp add: meta_of_def)
    have k: "chunk_sets s1 (cID c, cKind c) =
        Some (r0\<lparr>cs_data := aData a, cs_completed := True\<rparr>)"
      by (simp add: r0(2))
    have s1_up: "upsert_chunk_set s1 c = s1"
      by (rule upsert_idem [OF k m])
    have ch: "chunks s1 = chunks sb" using assemble_chunks [OF a] .
    have s1_in: "insert_chunk s1 c d = s1"
      by (rule insert_idem) (simp add: ch sbd insert_has)
    have s1_after: "after_insert s1 c = s1"
      by (simp add: after_insert_def s1_up d bytes_of_def s1_in)
    have cnt: "count_chunks s1 (cID c) (cKind c) = count_chunks sb (cID c) (cKind c)"
      by (simp add: count_chunks_def ch)
    have nlt: "\<not> count_chunks sb (cID c) (cKind c) < cTotal c"
      using assms Some eq by (auto split: if_splits)
    show ?thesis
      using nlt cnt assemble_idem [OF a] Some
      by (simp add: SaveChunk_ok [OF ok d] s1_after)
  qed
qed

lemma SaveChunk_GetChunkSet:
  assumes "SaveChunk env s c = Inr (s1, Some a)"
  shows "GetChunkSet s1 (cID c) (cKind c) = Some a"
proof -
  note a = SaveChunk_Some [OF assms]
  from assemble_row [OF a] obtain r0 where
    r0: "chunk_sets (after_insert s c) (cID c, cKind c) = Some r0"
    "s1 = (after_insert s c)\<lparr>chunk_sets := (chunk_sets (after_insert s c))((cID c, cKind c) \<mapsto>
               r0\<lparr>cs_data := aData a, cs_completed := True\<rparr>)\<rparr>"
    by blast
  note f = assemble_set [OF a r0(1)]
  have "GetChunkSet s1 (cID c) (cKind c) =
      Some \<lparr>aUploadID = cID c, aKind = cKind c, aName = cs_name r0,
               aAuthor = cs_author r0, aVersion = cs_version r0, aMime = cs_mime r0,
               aWidth = cs_width r0, aHeight = cs_height r0,
               aAnimated = cs_animated r0, aLoop = cs_loop r0,
               aChecksum = cs_checksum r0, aData = aData a\<rparr>"
    by (simp add: GetChunkSet_def r0(2))
  also have "\<dots> = Some a"
    by (subst (2) f(1)) (simp add: f(1))
  finally show ?thesis .
qed

lemma SaveChunk_set_meta:
  assumes "SaveChunk env s c = Inr (s1, Some a)"
  shows "aUploadID a = cID c" and "aKind a = cKind c" and "aChecksum a = cChecksum c"
    and "aMime a = cMime c" and "aLoop a = cLoop c" and "aName a = cName c"
    and "aAuthor a = cAuthor c"
    and "aData a = concat_parts (parts_of (after_insert s c) (cID c) (cKind c))"
    and "aChecksum a \<noteq> [] \<Longrightarrow> EqualFold (aChecksum a) (sha256_hex env (bytes_of (aData a)))"
proof -
  note a = SaveChunk_Some [OF assms]
  obtain row where row: "chunk_sets (after_insert s c) (cID c, cKind c) = Some row"
    "meta_of c row"
    using after_insert_row by blast
  note f = assemble_set [OF a row(1)]
  show "aUploadID a = cID c" "aKind a = cKind c" "aChecksum a = cChecksum c"
    "aMime a = cMime c" "aLoop a = cLoop c" "aName a = cName c" "aAuthor a = cAuthor c"
    "aData a = concat_parts (parts_of (after_insert s c) (cID c) (cKind c))"
    using row(2) by (simp_all add: f(1) meta_of_def)
  show "aChecksum a \<noteq> [] \<Longrightarrow> EqualFold (aChecksum a) (sha256_hex env (bytes_of (aData a)))"
    using f(4) by (simp add: f(1))
qed

lemma UpsertV1_row:
  assumes "UpsertV1 s p = Inr s'"
  shows "\<exists>row. assets s' (rAuthor p, rName p) = Some row \<and> as_version row = 1 \<and>
           as_upload_id row = None \<and>
           as_checksum row = (case assets s (rAuthor p, rName p) of
                                None \<Rightarrow> None | Some old \<Rightarrow> as_checksum old) \<and>
           as_fallback_mime row = nullIfEmpty (rFallbackMime p) \<and>
           as_fallback_data row = nullBytes (rFallbackData p) \<and>
           as_mime row = rMime p \<and> Some (as_data row) = rData p \<and> as_loop row = rLoop p"
  using assms unfolding UpsertV1_def Let_def
  by (simp split: option.splits if_splits) auto

lemma UpsertFromChunks_row:
  assumes "UpsertFromChunks s0 (Some a) fb = Inr s2"
  shows "\<exists>row. assets s2 (aAuthor a, aName a) = Some row \<and>
           as_checksum row = Some (aChecksum a) \<and> Some (as_data row) = aData a \<and>
           as_version row = aVersion a \<and> as_upload_id row = Some (aUploadID a) \<and>
           as_mime row = aMime a \<and> as_loop row = aLoop a \<and>
           as_fallback_mime row = fallbackMime fb \<and> as_fallback_data row = fallbackData fb"
  using assms unfolding UpsertFromChunks_def
  by (simp split: if_splits option.splits) auto

section \<open>The claims about the store\<close>

text \<open>
  Claim C1. SaveChunk is idempotent on the store (lemma \<open>SaveChunk_idem\<close> above: a second
  call with the same payload leaves the store as the first left it), but the second
  part of the claim, that a set is returned at most once for one \<open>(upload_id, kind)\<close>,
  fails: SaveChunk does not look at \<open>completed\<close>, so a chunk that arrives again after the
  set is complete makes it assemble and return the set again. Here the only chunk of an
  upload (seq 1 of 1) is saved twice, and both calls return the set.
\<close>

theorem SaveChunk_twice_returns_twice:
  "\<exists>s1 a. SaveChunk env empty_store ex_c1 = Inr (s1, Some a) \<and>
          SaveChunk env s1 ex_c1 = Inr (s1, Some a)"
  by (simp add: store_evals ex_c1_def)

text \<open>
  Claim C2. UpsertV1 over an existing row written from a v2 upload: the row gets version 1
  and no upload id, but keeps the checksum of the v2 upload, because the SET list of the
  ON CONFLICT branch leaves \<open>checksum\<close> out.
\<close>

theorem UpsertV1_over_v2_keeps_checksum:
  "\<exists>s'. UpsertV1 (empty_store\<lparr>assets := [(''alice'', ''smile'') \<mapsto> ex_v2_asset]\<rparr>) ex_reg = Inr s' \<and>
        map_option as_version (assets s' (''alice'', ''smile'')) = Some 1 \<and>
        map_option as_upload_id (assets s' (''alice'', ''smile'')) = Some None \<and>
        map_option as_checksum (assets s' (''alice'', ''smile'')) =
          Some (Some ''4bf5122f344554c53bde2ebb8cd2b7e3d1600ad631c385a5d7cce23c7785459a'')"
  by (simp add: UpsertV1_def ex_reg_def ex_v2_asset_def empty_store_def in_int4_def
      opt_in_int4_def Let_def)

text \<open>
  Claim C9. When SaveChunk counts the chunks of \<open>(upload_id, kind)\<close> there is at least
  one, the chunk it has just inserted or the one that was there under the same key; so
  the assembler it calls never answers "no chunks to assemble", and SaveChunk never
  returns that error.
\<close>

theorem SaveChunk_never_no_chunks:
  "1 \<le> count_chunks (after_insert s c) (cID c) (cKind c) \<and>
   assembleChunks env (after_insert s c) (cID c) (cKind c) \<noteq> Inl NoChunksToAssemble \<and>
   SaveChunk env s c \<noteq> Inl (AssembleChunks NoChunksToAssemble)"
proof -
  have p: "parts_of (after_insert s c) (cID c) (cKind c) \<noteq> []"
    unfolding after_insert_def by (rule parts_nonempty)
  have p2: "parts_of (insert_chunk (upsert_chunk_set s c) c d) (cID c) (cKind c) \<noteq> []" for d
    by (rule parts_nonempty)
  have 1: "1 \<le> count_chunks (after_insert s c) (cID c) (cKind c)"
    using p length_parts [of "after_insert s c" "cID c" "cKind c"]
    by (cases "parts_of (after_insert s c) (cID c) (cKind c)") auto
  have 2: "assembleChunks env (after_insert s c) (cID c) (cKind c) \<noteq> Inl NoChunksToAssemble"
    using p by (simp add: assembleChunks_def Let_def split: option.splits)
  have 3: "SaveChunk env s c \<noteq> Inl (AssembleChunks NoChunksToAssemble)"
    using p2 by (auto simp: SaveChunk_def assembleChunks_def Let_def
        split: option.splits sum.splits if_splits)
  from 1 2 3 show ?thesis by blast
qed

text \<open>
  Claim C4, as the claim states it: every completed set with a non-empty checksum, and
  every asset written from it, has data whose SHA-256 digest is the checksum up to case.
  It fails whatever the hash function is: a set completes without a checksum; a further
  chunk of the same \<open>(upload_id, kind)\<close> (seq 2 of a total of 3, so nothing is assembled)
  overwrites the checksum of the completed row; the fallback set then completes and the
  asset is written from the completed main row, with the checksum its data does not have.
\<close>

theorem completed_set_checksum_counterexample:
  "\<forall>env. \<exists>s1 a1 s2 a s3 af s4 row.
     SaveChunk env empty_store ex_c1 = Inr (s1, Some a1) \<and>
     SaveChunk env s1 (ex_c2 env) = Inr (s2, None) \<and>
     GetChunkSet s2 ''U1'' ''main'' = Some a \<and> aChecksum a \<noteq> [] \<and>
     \<not> EqualFold (aChecksum a) (sha256_hex env (bytes_of (aData a))) \<and>
     SaveChunk env s2 ex_fb = Inr (s3, Some af) \<and>
     handleCompletedSet s3 af = (s4, None) \<and>
     assets s4 (''alice'', ''smile'') = Some row \<and>
     as_checksum row = Some (aChecksum a) \<and>
     \<not> EqualFold (aChecksum a) (sha256_hex env (as_data row))"
proof
  fix env :: stdlib
  have ne: "\<not> EqualFold (sha256_hex env [1] @ ''0'') (sha256_hex env [1])"
    using EqualFold_length [of "sha256_hex env [1] @ ''0''" "sha256_hex env [1]"] by auto
  show "\<exists>s1 a1 s2 a s3 af s4 row.
     SaveChunk env empty_store ex_c1 = Inr (s1, Some a1) \<and>
     SaveChunk env s1 (ex_c2 env) = Inr (s2, None) \<and>
     GetChunkSet s2 ''U1'' ''main'' = Some a \<and> aChecksum a \<noteq> [] \<and>
     \<not> EqualFold (aChecksum a) (sha256_hex env (bytes_of (aData a))) \<and>
     SaveChunk env s2 ex_fb = Inr (s3, Some af) \<and>
     handleCompletedSet s3 af = (s4, None) \<and>
     assets s4 (''alice'', ''smile'') = Some row \<and>
     as_checksum row = Some (aChecksum a) \<and>
     \<not> EqualFold (aChecksum a) (sha256_hex env (as_data row))"
    using ne
    by (simp add: store_evals ex_c1_def ex_c2_def ex_fb_def GetChunkSet_def
        handleCompletedSet_def UpsertFromChunks_def run_def fallbackMime_def fallbackData_def)
qed

text \<open>
  Claim C4, amended. When SaveChunk assembles (the number of chunks equals \<open>total\<close>) and
  the chunk's checksum is not empty and differs, ignoring case, from the SHA-256 digest of
  the concatenation in seq order, SaveChunk fails with the checksum mismatch error; an
  error carries no store, the transaction being rolled back. When SaveChunk returns a
  set with a non-empty checksum, the digest of the set's data is that checksum up to
  case, the completed row that GetChunkSet then reads is that set, and so is the data and
  the checksum of an asset that UpsertFromChunks writes from the returned set.
\<close>

theorem SaveChunk_checksum_at_assembly:
  "(chunk_ok c \<and> cData c = Some d \<and>
    count_chunks (after_insert s c) (cID c) (cKind c) = cTotal c \<and> cChecksum c \<noteq> [] \<and>
    \<not> EqualFold (cChecksum c)
         (sha256_hex env (bytes_of (concat_parts (parts_of (after_insert s c) (cID c) (cKind c)))))
    \<longrightarrow> SaveChunk env s c = Inl (AssembleChunks (ChecksumMismatch (cID c) (cKind c))))
   \<and>
   (SaveChunk env s c = Inr (s1, Some a) \<and> aChecksum a \<noteq> []
    \<longrightarrow> aChecksum a = cChecksum c \<and>
        EqualFold (aChecksum a) (sha256_hex env (bytes_of (aData a))) \<and>
        GetChunkSet s1 (cID c) (cKind c) = Some a \<and>
        (\<forall>s0 fb s2. UpsertFromChunks s0 (Some a) fb = Inr s2 \<longrightarrow>
           (\<exists>row. assets s2 (aAuthor a, aName a) = Some row \<and>
                  as_checksum row = Some (aChecksum a) \<and>
                  EqualFold (aChecksum a) (sha256_hex env (as_data row)))))"
proof (intro conjI impI)
  assume h: "chunk_ok c \<and> cData c = Some d \<and>
    count_chunks (after_insert s c) (cID c) (cKind c) = cTotal c \<and> cChecksum c \<noteq> [] \<and>
    \<not> EqualFold (cChecksum c)
         (sha256_hex env (bytes_of (concat_parts (parts_of (after_insert s c) (cID c) (cKind c)))))"
  obtain row where row: "chunk_sets (after_insert s c) (cID c, cKind c) = Some row"
    "meta_of c row"
    using after_insert_row by blast
  have p: "parts_of (after_insert s c) (cID c) (cKind c) \<noteq> []"
    unfolding after_insert_def by (rule parts_nonempty)
  have len: "int (length (parts_of (after_insert s c) (cID c) (cKind c))) = cs_total row"
    using h row(2) by (simp add: length_parts meta_of_def)
  have ck: "cs_checksum row = cChecksum c" using row(2) by (simp add: meta_of_def)
  have "assembleChunks env (after_insert s c) (cID c) (cKind c) =
      Inl (ChecksumMismatch (cID c) (cKind c))"
    unfolding assembleChunks_def Let_def row(1) option.case
    using p len h by (simp add: ck)
  with h show "SaveChunk env s c = Inl (AssembleChunks (ChecksumMismatch (cID c) (cKind c)))"
    by (simp add: SaveChunk_ok [of c d])
next
  assume h: "SaveChunk env s c = Inr (s1, Some a) \<and> aChecksum a \<noteq> []"
  then have sc: "SaveChunk env s c = Inr (s1, Some a)" and ne: "aChecksum a \<noteq> []"
    by simp_all
  show "aChecksum a = cChecksum c" by (rule SaveChunk_set_meta(3) [OF sc])
  show ef: "EqualFold (aChecksum a) (sha256_hex env (bytes_of (aData a)))"
    by (rule SaveChunk_set_meta(9) [OF sc ne])
  show "GetChunkSet s1 (cID c) (cKind c) = Some a" by (rule SaveChunk_GetChunkSet [OF sc])
  show "\<forall>s0 fb s2. UpsertFromChunks s0 (Some a) fb = Inr s2 \<longrightarrow>
           (\<exists>row. assets s2 (aAuthor a, aName a) = Some row \<and>
                  as_checksum row = Some (aChecksum a) \<and>
                  EqualFold (aChecksum a) (sha256_hex env (as_data row)))"
  proof (intro allI impI)
    fix s0 fb s2
    assume u: "UpsertFromChunks s0 (Some a) fb = Inr s2"
    from UpsertFromChunks_row [OF u] obtain row where
      r: "assets s2 (aAuthor a, aName a) = Some row" "as_checksum row = Some (aChecksum a)"
         "Some (as_data row) = aData a"
      by blast
    have "bytes_of (aData a) = as_data row"
      using r(3) [symmetric] by (simp add: bytes_of_def)
    with ef r show "\<exists>row. assets s2 (aAuthor a, aName a) = Some row \<and>
                  as_checksum row = Some (aChecksum a) \<and>
                  EqualFold (aChecksum a) (sha256_hex env (as_data row))"
      by simp
  qed
qed

theorem SaveChunk_checksum_at_assembly_witness:
  "SaveChunk ex_env empty_store ex_c1_bad = Inl (AssembleChunks (ChecksumMismatch ''U1'' ''main'')) \<and>
   (\<exists>s1 a. SaveChunk ex_env empty_store ex_c1_sum = Inr (s1, Some a) \<and> aChecksum a \<noteq> [] \<and>
      EqualFold (aChecksum a) (sha256_hex ex_env (bytes_of (aData a))) \<and>
      GetChunkSet s1 ''U1'' ''main'' = Some a \<and>
      (\<exists>s2 row. UpsertFromChunks empty_store (Some a) None = Inr s2 \<and>
          assets s2 (''alice'', ''smile'') = Some row \<and>
          as_checksum row = Some (aChecksum a) \<and>
          EqualFold (aChecksum a) (sha256_hex ex_env (as_data row))))"
proof -
  have ef: "EqualFold ''4BF5122F344554C53BDE2EBB8CD2B7E3D1600AD631C385A5D7CCE23C7785459A''
     ''4bf5122f344554c53bde2ebb8cd2b7e3d1600ad631c385a5d7cce23c7785459a''"
    by (simp add: EqualFold_def ToLower_def fold_char_def Let_def)
  have nef: "\<not> EqualFold ''00''
     ''4bf5122f344554c53bde2ebb8cd2b7e3d1600ad631c385a5d7cce23c7785459a''"
    using EqualFold_length by fastforce
  have bad: "chunk_ok ex_c1_bad \<and> cData ex_c1_bad = Some [1] \<and>
    count_chunks (after_insert empty_store ex_c1_bad) (cID ex_c1_bad) (cKind ex_c1_bad) = cTotal ex_c1_bad \<and>
    cChecksum ex_c1_bad \<noteq> [] \<and>
    \<not> EqualFold (cChecksum ex_c1_bad)
         (sha256_hex ex_env (bytes_of (concat_parts (parts_of (after_insert empty_store ex_c1_bad) (cID ex_c1_bad) (cKind ex_c1_bad)))))"
    using nef
    by (simp add: store_evals ex_c1_bad_def ex_c1_def chunk_ok_def after_insert_def ex_env_def)
  have good: "\<exists>s1 a. SaveChunk ex_env empty_store ex_c1_sum = Inr (s1, Some a) \<and> aChecksum a \<noteq> [] \<and>
       aAuthor a = ''alice'' \<and> aName a = ''smile'' \<and> cID ex_c1_sum = ''U1'' \<and> cKind ex_c1_sum = ''main'' \<and>
       (\<exists>s2. UpsertFromChunks empty_store (Some a) None = Inr s2)"
    using ef
    by (simp add: store_evals ex_c1_sum_def ex_c1_def ex_env_def UpsertFromChunks_def)
  then obtain s1 a s2 where g: "SaveChunk ex_env empty_store ex_c1_sum = Inr (s1, Some a)"
    "aChecksum a \<noteq> []" "aAuthor a = ''alice''" "aName a = ''smile''"
    "cID ex_c1_sum = ''U1''" "cKind ex_c1_sum = ''main''"
    "UpsertFromChunks empty_store (Some a) None = Inr s2"
    by blast
  have b1: "SaveChunk ex_env empty_store ex_c1_bad =
      Inl (AssembleChunks (ChecksumMismatch (cID ex_c1_bad) (cKind ex_c1_bad)))"
    using SaveChunk_checksum_at_assembly [of ex_c1_bad "[1]" empty_store ex_env] bad by blast
  have b2: "EqualFold (aChecksum a) (sha256_hex ex_env (bytes_of (aData a))) \<and>
        GetChunkSet s1 (cID ex_c1_sum) (cKind ex_c1_sum) = Some a \<and>
        (\<forall>s0 fb s2. UpsertFromChunks s0 (Some a) fb = Inr s2 \<longrightarrow>
           (\<exists>row. assets s2 (aAuthor a, aName a) = Some row \<and>
                  as_checksum row = Some (aChecksum a) \<and>
                  EqualFold (aChecksum a) (sha256_hex ex_env (as_data row))))"
    using SaveChunk_checksum_at_assembly [of ex_c1_sum "[1]" empty_store ex_env s1 a] g(1,2)
    by blast
  from b2 g(7) have b3: "\<exists>row. assets s2 (aAuthor a, aName a) = Some row \<and>
                  as_checksum row = Some (aChecksum a) \<and>
                  EqualFold (aChecksum a) (sha256_hex ex_env (as_data row))"
    by blast
  have b1': "SaveChunk ex_env empty_store ex_c1_bad = Inl (AssembleChunks (ChecksumMismatch ''U1'' ''main''))"
    using b1 by (simp add: ex_c1_bad_def ex_c1_def)
  show ?thesis
    using b1' b2 b3 g by (metis)
qed

section \<open>Properties of the processor\<close>

lemmas json_evals = members_def EqualFold_def ToLower_def fold_char_def Let_def unmarshal_def
  decode_v1_def decode_v2_def decode_envelope_def decode_custom_def in_int64_def

lemma parseLoop_simps:
  "parseLoop None = Inr None"
  "parseLoop (Some JNull) = Inr None"
  "parseLoop (Some (JBool False)) = Inr None"
  "parseLoop (Some (JBool True)) = Inr (Some 0)"
  "in_int64 n \<Longrightarrow> parseLoop (Some (JInt n)) = Inr (Some n)"
  "\<not> in_int64 n \<Longrightarrow> parseLoop (Some (JInt n)) = Inl LoopMustBeBoolOrInt"
  "parseLoop (Some (JString t)) = Inl LoopMustBeBoolOrInt"
  "parseLoop (Some (JFrac f)) = Inl LoopMustBeBoolOrInt"
  "parseLoop (Some (JArray xs)) = Inl LoopMustBeBoolOrInt"
  "parseLoop (Some (JObject ms)) = Inl LoopMustBeBoolOrInt"
  by (simp_all add: parseLoop_def)

lemma dec_raw_last: "dec_raw acc vs = (if vs = [] then acc else Some (last vs))"
  by (induction vs arbitrary: acc) auto

lemma run_None: "run s r = (s', None) \<longleftrightarrow> r = Inr s'"
  by (cases r) (auto simp: run_def)

lemma handleV1_loop_error:
  assumes "Option.bind (unmarshal env payload) decode_v1 = Some msg" "m1Op msg = ''register''"
    "parseLoop (m1Loop msg) = Inl e"
  shows "handleV1 env s payload author = (s, Some (LoopError e))"
  using assms by (simp add: handleV1_def)

lemma handleV1_register_ok:
  assumes "Option.bind (unmarshal env payload) decode_v1 = Some msg" "m1Op msg = ''register''"
    "handleV1 env s payload author = (s', None)"
  shows "\<exists>row. assets s' (author, m1Name msg) = Some row \<and>
           parseLoop (m1Loop msg) = Inr (as_loop row) \<and> as_mime row = m1Mime msg \<and>
           b64_decode env (m1Data msg) = Some (as_data row) \<and> as_version row = 1"
proof -
  from assms obtain loop rawData fd fm where
    l: "parseLoop (m1Loop msg) = Inr loop" and d: "b64_decode env (m1Data msg) = Some rawData"
    and u: "UpsertV1 s \<lparr>rName = m1Name msg, rAuthor = author, rMime = m1Mime msg,
                              rWidth = m1Width msg, rHeight = m1Height msg,
                              rData = Some rawData, rAnimated = m1Animated msg,
                              rLoop = loop, rFallbackMime = fm,
                              rFallbackData = fd\<rparr> = Inr s'"
    unfolding handleV1_def
    by (auto simp: run_None split: sum.splits option.splits)
  from UpsertV1_row [OF u] show ?thesis
    using l d by auto
qed

lemma handleV2_chunk:
  assumes "Option.bind (unmarshal env payload) decode_v2 = Some msg"
    and "m2Op msg = ''chunk'' \<or> m2Op msg = ''register'' \<or> m2Op msg = []"
    and "\<not> (m2Op msg = ''register'' \<and> m2Data msg = [])"
    and "0 < m2Total msg" and "0 < m2Seq msg"
    and "parseLoop (m2Loop msg) = Inr loop" and "b64_decode env (m2Data msg) = Some d"
  shows "handleV2 env s payload author =
     (case SaveChunk env s (chunk_of msg author loop d) of
        Inl e \<Rightarrow> (s, Some e)
      | Inr (s', None) \<Rightarrow> (s', None)
      | Inr (s', Some assembled) \<Rightarrow> handleCompletedSet s' assembled)"
  using assms by (auto simp: handleV2_def chunk_of_def Let_def)

end
